theory Spec2Isabelle
  imports Complex_Main
begin

section \<open>JavaScript values met by the monitoring loop of \<^verbatim>\<open>src/App.jsx\<close>\<close>

text \<open>
  The values that flow through \<^verbatim>\<open>analyzeFrame\<close> are the results of
  \<^verbatim>\<open>response.json()\<close> and \<^verbatim>\<open>JSON.parse\<close>, and what property reads on them
  give. A \<open>json\<close> is a parsed JSON value; an object is the list of its own properties
  (keys distinct, as a parsed object has them). A \<open>jsval\<close> adds \<^verbatim>\<open>undefined\<close>,
  written \<open>None\<close>, which a property read of a missing key returns.
\<close>

datatype json =
    JNull
  | JBool bool
  | JNum real
  | JStr string
  | JArr "json list"
  | JObj "(string \<times> json) list"

type_synonym jsval = "json option"

datatype js_error = TypeError | SyntaxError | DOMException string

text \<open>
  \<^verbatim>\<open>v.k\<close> and \<^verbatim>\<open>v[0]\<close> (the key \<open>''0''\<close>). Reading a property of
  \<^verbatim>\<open>undefined\<close> or \<^verbatim>\<open>null\<close> throws a TypeError; an object gives its own
  property or \<^verbatim>\<open>undefined\<close>; an array and a string answer the index 0; a number and a
  boolean have none of the keys the code reads. The keys the code reads are
  \<^verbatim>\<open>candidates\<close>, \<^verbatim>\<open>0\<close>, \<^verbatim>\<open>content\<close>, \<^verbatim>\<open>parts\<close>, \<^verbatim>\<open>text\<close>,
  \<^verbatim>\<open>status\<close> and \<^verbatim>\<open>message\<close>: none of them is inherited from a prototype.
\<close>

fun get_prop :: "jsval \<Rightarrow> string \<Rightarrow> js_error + jsval" where
  "get_prop None k = Inl TypeError"
| "get_prop (Some JNull) k = Inl TypeError"
| "get_prop (Some (JObj kvs)) k = Inr (map_of kvs k)"
| "get_prop (Some (JArr xs)) k =
     Inr (if k = ''0'' then (case xs of [] \<Rightarrow> None | x # _ \<Rightarrow> Some x) else None)"
| "get_prop (Some (JStr s)) k =
     Inr (if k = ''0'' then (case s of [] \<Rightarrow> None | c # _ \<Rightarrow> Some (JStr [c])) else None)"
| "get_prop (Some (JNum n)) k = Inr None"
| "get_prop (Some (JBool b)) k = Inr None"

text \<open>A further property read on the result of an expression that may already have thrown.\<close>

fun then_get :: "js_error + jsval \<Rightarrow> string \<Rightarrow> js_error + jsval" where
  "then_get (Inl e) k = Inl e"
| "then_get (Inr v) k = get_prop v k"

section \<open>State of the component and of its collaborators\<close>

datatype mode = Homework | Eating

datatype status = Idle | Analyzing | Good | Warning | Error

text \<open>The two instruction templates of lines 106-117 and 119-130 stand as two constants.\<close>

datatype prompt = EatingPrompt | HomeworkPrompt

text \<open>
  \<^verbatim>\<open>setInterval(analyzeFrame, 6000)\<close> keeps the \<^verbatim>\<open>analyzeFrame\<close> of the render in
  which the button was pressed: the \<^verbatim>\<open>mode\<close> and \<^verbatim>\<open>apiKey\<close> it reads are those
  of that render.
\<close>

record closure =
  c_mode :: mode
  c_apiKey :: string

text \<open>The body of the POST request of lines 134-146, as far as it varies.\<close>

record request =
  req_key :: string
  req_prompt :: prompt
  req_data :: jsval

record utterance =
  u_text :: jsval
  u_rate :: real
  u_pitch :: real
  u_voice :: "string option"

text \<open>The document of lines 189-195; its timestamp is the server's.\<close>

record log_doc =
  d_mode :: mode
  d_message :: jsval
  d_type :: string
  d_uid :: string

text \<open>
  \<open>call\<close> is a history variable, not a value of the source: each entry of
  \<^verbatim>\<open>speakText\<close> and \<^verbatim>\<open>logEvent\<close> is recorded, so that the number of calls and
  their arguments can be stated.
\<close>

datatype call = Call_speakText jsval | Call_logEvent jsval string

text \<open>
  The React state of \<^verbatim>\<open>App\<close> (lines 37-46), the interval timers of the host, and
  what has reached the collaborators: alerts, console, speech device, event sink, network.
\<close>

record world =
  isActive :: bool
  mode :: mode
  status :: status
  lastMessage :: jsval
  settingsOpen :: bool
  apiKey :: string
  intervalRef :: "nat option"
  intervals :: "(nat \<times> closure) list"
  next_handle :: nat
  alerts :: "string list"
  console :: "(string \<times> js_error) list"
  spoken :: "utterance list"
  monitor_logs :: "log_doc list"
  requests :: "request list"
  calls :: "call list"

text \<open>
  What is fixed for the life of the page: the builtin \<^verbatim>\<open>JSON.parse\<close> (it converts
  its argument to a string itself, so it takes any value), whether \<^verbatim>\<open>db\<close> was
  initialised (lines 20-33), \<^verbatim>\<open>auth?.currentUser?.uid\<close>, whether
  \<^verbatim>\<open>window.speechSynthesis\<close> exists, and the names of the voices it offers.
\<close>

record platform =
  JSON_parse :: "jsval \<Rightarrow> js_error + json"
  db :: bool
  currentUser_uid :: "string option"
  speechSynthesis :: bool
  getVoices :: "string list"

text \<open>
  What the host answers during the synchronous part of one cycle (lines 92-102):
  the two refs, whether \<^verbatim>\<open>getContext('2d')\<close> gives a context (it may give
  \<^verbatim>\<open>null\<close>), whether \<^verbatim>\<open>drawImage\<close> throws, and what \<^verbatim>\<open>toDataURL\<close> gives.
\<close>

record video =
  srcObject :: bool
  videoWidth :: nat
  videoHeight :: nat

record capture_env =
  videoRef :: "video option"
  canvasRef :: bool
  getContext :: bool
  drawImage :: "js_error option"
  toDataURL :: "js_error + string"

text \<open>
  How the \<^verbatim>\<open>fetch\<close> promise settles: rejected, or a response with its HTTP status
  code and the outcome of \<^verbatim>\<open>response.json()\<close>.
\<close>

datatype fetch_outcome = Rejected js_error | Responded nat "js_error + json"

text \<open>
  What the host answers after the network call of one cycle: the settled \<^verbatim>\<open>fetch\<close>,
  the value of \<^verbatim>\<open>synth.speaking\<close> when \<^verbatim>\<open>speakText\<close> reads it, and the failure of
  the sink's write, if it fails.
\<close>

record settle_env =
  fetched :: fetch_outcome
  synth_speaking :: bool
  addDoc_fails :: "js_error option"

definition initial_world :: "string \<Rightarrow> world" where
  "initial_world GEMINI_API_KEY =
     \<lparr>isActive = False, mode = Homework, status = Idle,
      lastMessage = Some (JStr ''Mom is ready.''), settingsOpen = False,
      apiKey = GEMINI_API_KEY, intervalRef = None, intervals = [], next_handle = 1,
      alerts = [], console = [], spoken = [], monitor_logs = [], requests = [],
      calls = []\<rparr>"

section \<open>toggleMonitoring (lines 73-89)\<close>

text \<open>\<^verbatim>\<open>clearInterval(h)\<close>: the timer of that handle, if any, is gone.\<close>

definition clearInterval :: "nat option \<Rightarrow> (nat \<times> closure) list \<Rightarrow> (nat \<times> closure) list" where
  "clearInterval h ts = filter (\<lambda>t. Some (fst t) \<noteq> h) ts"

definition toggleMonitoring :: "world \<Rightarrow> world" where
  "toggleMonitoring w =
     (if isActive w then
        w\<lparr>intervals := clearInterval (intervalRef w) (intervals w),
          isActive := False,
          status := Idle,
          lastMessage := Some (JStr ''Monitoring paused.'')\<rparr>
      else if apiKey w = [] then
        w\<lparr>settingsOpen := True,
          alerts := alerts w @ [''Please enter a Gemini API Key in settings.'']\<rparr>
      else
        w\<lparr>isActive := True,
          lastMessage := Some (JStr ''Mom is watching...''),
          intervalRef := Some (next_handle w),
          intervals := intervals w @ [(next_handle w, \<lparr>c_mode = mode w, c_apiKey = apiKey w\<rparr>)],
          next_handle := Suc (next_handle w)\<rparr>)"

section \<open>speakText (lines 167-184)\<close>

text \<open>\<^verbatim>\<open>name.includes(p)\<close>: \<open>p\<close> occurs in \<open>name\<close> as a contiguous piece.\<close>

fun starts_with :: "string \<Rightarrow> string \<Rightarrow> bool" where
  "starts_with s [] = True"
| "starts_with [] (p # ps) = False"
| "starts_with (c # cs) (p # ps) = (c = p \<and> starts_with cs ps)"

fun str_includes :: "string \<Rightarrow> string \<Rightarrow> bool" where
  "str_includes [] p = (p = [])"
| "str_includes (c # cs) p = (starts_with (c # cs) p \<or> str_includes cs p)"

definition femaleVoice :: "string list \<Rightarrow> string option" where
  "femaleVoice voices =
     find (\<lambda>name. (str_includes name ''Female'' \<or> str_includes name ''Samantha''
                    \<or> str_includes name ''Google US English'')
                  \<and> \<not> str_includes name ''Male'') voices"

definition speakText :: "platform \<Rightarrow> bool \<Rightarrow> jsval \<Rightarrow> world \<Rightarrow> world" where
  "speakText p speaking text w =
     (let w0 = w\<lparr>calls := calls w @ [Call_speakText text]\<rparr> in
      if \<not> speechSynthesis p \<or> speaking then w0
      else w0\<lparr>spoken := spoken w0 @
                 [\<lparr>u_text = text, u_rate = 1, u_pitch = 11 / 10,
                   u_voice = femaleVoice (getVoices p)\<rparr>]\<rparr>)"

section \<open>logEvent (lines 186-199)\<close>

text \<open>\<^verbatim>\<open>auth?.currentUser?.uid || 'anon'\<close>: an absent or empty uid gives \<^verbatim>\<open>'anon'\<close>.\<close>

definition uid_or_anon :: "platform \<Rightarrow> string" where
  "uid_or_anon p =
     (case currentUser_uid p of None \<Rightarrow> ''anon'' | Some u \<Rightarrow> if u = [] then ''anon'' else u)"

text \<open>The awaited write of line 189: it appends the document, or throws.\<close>

definition addDoc :: "js_error option \<Rightarrow> log_doc \<Rightarrow> world \<Rightarrow> (js_error + unit) \<times> world" where
  "addDoc fails doc w =
     (case fails of
        None \<Rightarrow> (Inr (), w\<lparr>monitor_logs := monitor_logs w @ [doc]\<rparr>)
      | Some e \<Rightarrow> (Inl e, w))"

text \<open>
  The result is how the promise of the \<^verbatim>\<open>async\<close> function settles (\<open>Inl\<close>: rejected)
  and the world it leaves.
\<close>

definition logEvent ::
  "platform \<Rightarrow> closure \<Rightarrow> js_error option \<Rightarrow> jsval \<Rightarrow> string \<Rightarrow> world \<Rightarrow> (js_error + unit) \<times> world" where
  "logEvent p cl fails message type w =
     (let w0 = w\<lparr>calls := calls w @ [Call_logEvent message type]\<rparr> in
      if \<not> db p then (Inr (), w0)
      else
        (case addDoc fails
                \<lparr>d_mode = c_mode cl, d_message = message, d_type = type,
                 d_uid = uid_or_anon p\<rparr> w0 of
           (Inr u, w1) \<Rightarrow> (Inr (), w1)
         | (Inl e, w1) \<Rightarrow> (Inr (), w1\<lparr>console := console w1 @ [(''Log error'', e)]\<rparr>)))"

section \<open>analyzeFrame (lines 91-165)\<close>

text \<open>\<^verbatim>\<open>url.split(',')[1]\<close>: the piece between the first and the second comma.\<close>

definition split_comma_1 :: "string \<Rightarrow> jsval" where
  "split_comma_1 url =
     (case dropWhile (\<lambda>c. c \<noteq> CHR '','') url of
        [] \<Rightarrow> None
      | _ # rest \<Rightarrow> Some (JStr (takeWhile (\<lambda>c. c \<noteq> CHR '','') rest)))"

text \<open>
  Lines 96-102. \<^verbatim>\<open>ctx.drawImage\<close> on a \<^verbatim>\<open>null\<close> context is a TypeError. These
  lines stand before the \<^verbatim>\<open>try\<close> of line 133.
\<close>

definition capture :: "capture_env \<Rightarrow> js_error + jsval" where
  "capture c =
     (if \<not> getContext c then Inl TypeError
      else case drawImage c of
             Some e \<Rightarrow> Inl e
           | None \<Rightarrow> (case toDataURL c of
                        Inl e \<Rightarrow> Inl e
                      | Inr url \<Rightarrow> Inr (split_comma_1 url)))"

definition prompt_of :: "mode \<Rightarrow> prompt" where
  "prompt_of m = (if m = Eating then EatingPrompt else HomeworkPrompt)"

text \<open>
  The synchronous part of a cycle, up to the call of \<^verbatim>\<open>fetch\<close>: the function has
  returned (the guard of line 92), is awaiting the network with its request sent, or has
  thrown (\<open>Inl\<close>: the promise of \<^verbatim>\<open>analyzeFrame\<close> is rejected).
\<close>

datatype started = Returned | Awaiting request

definition analyzeFrame_start ::
  "closure \<Rightarrow> capture_env \<Rightarrow> world \<Rightarrow> (js_error + started) \<times> world" where
  "analyzeFrame_start cl c w =
     (if videoRef c = None \<or> \<not> canvasRef c then (Inr Returned, w)
      else
        (let w1 = w\<lparr>status := Analyzing\<rparr> in
         case capture c of
           Inl e \<Rightarrow> (Inl e, w1)
         | Inr base64Image \<Rightarrow>
             (let req = \<lparr>req_key = c_apiKey cl, req_prompt = prompt_of (c_mode cl),
                         req_data = base64Image\<rparr>
              in (Inr (Awaiting req), w1\<lparr>requests := requests w1 @ [req]\<rparr>))))"

text \<open>\<^verbatim>\<open>await fetch(...)\<close> then \<^verbatim>\<open>await response.json()\<close> (lines 134-148).
  The status code of the response is not read.\<close>

fun response_data :: "fetch_outcome \<Rightarrow> js_error + json" where
  "response_data (Rejected e) = Inl e"
| "response_data (Responded code body) = body"

text \<open>\<^verbatim>\<open>data.candidates[0].content.parts[0].text\<close> (line 149).\<close>

definition candidate_text :: "json \<Rightarrow> js_error + jsval" where
  "candidate_text data =
     then_get (then_get (then_get (then_get (then_get
       (get_prop (Some data) ''candidates'') ''0'') ''content'') ''parts'') ''0'') ''text''"

text \<open>Lines 134-149: the value of \<^verbatim>\<open>result\<close>, or what was thrown on the way.\<close>

definition analyze :: "platform \<Rightarrow> fetch_outcome \<Rightarrow> js_error + json" where
  "analyze p r =
     (case response_data r of
        Inl e \<Rightarrow> Inl e
      | Inr data \<Rightarrow> (case candidate_text data of
                      Inl e \<Rightarrow> Inl e
                    | Inr text \<Rightarrow> JSON_parse p text))"

text \<open>The handler of lines 161-164.\<close>

definition catch_AI_error :: "js_error \<Rightarrow> world \<Rightarrow> (js_error + unit) \<times> world" where
  "catch_AI_error e w =
     (Inr (), w\<lparr>console := console w @ [(''AI Error:'', e)], status := Error\<rparr>)"

text \<open>
  The rest of a cycle, from the settling of \<^verbatim>\<open>fetch\<close> on (lines 148-164), run on
  the world as it is at that time. \<^verbatim>\<open>logEvent\<close> is called and not awaited: only the
  world it leaves is kept.
\<close>

definition analyzeFrame_resume ::
  "platform \<Rightarrow> closure \<Rightarrow> settle_env \<Rightarrow> world \<Rightarrow> (js_error + unit) \<times> world" where
  "analyzeFrame_resume p cl n w =
     (case analyze p (fetched n) of
        Inl e \<Rightarrow> catch_AI_error e w
      | Inr result \<Rightarrow>
          (case get_prop (Some result) ''status'' of
             Inl e \<Rightarrow> catch_AI_error e w
           | Inr st \<Rightarrow>
               if st = Some (JStr ''bad'') then
                 (let w1 = w\<lparr>status := Warning\<rparr> in
                  case get_prop (Some result) ''message'' of
                    Inl e \<Rightarrow> catch_AI_error e w1
                  | Inr message \<Rightarrow>
                      (let w2 = w1\<lparr>lastMessage := message\<rparr>;
                           w3 = speakText p (synth_speaking n) message w2;
                           w4 = snd (logEvent p cl (addDoc_fails n) message ''violation'' w3)
                       in (Inr (), w4)))
               else
                 (Inr (), w\<lparr>status := Good, lastMessage := Some (JStr ''Mom is happy.'')\<rparr>)))"

text \<open>A whole cycle with nothing else happening between its two parts.\<close>

definition analyzeFrame ::
  "platform \<Rightarrow> closure \<Rightarrow> capture_env \<Rightarrow> settle_env \<Rightarrow> world \<Rightarrow> (js_error + unit) \<times> world" where
  "analyzeFrame p cl c n w =
     (case analyzeFrame_start cl c w of
        (Inl e, w1) \<Rightarrow> (Inl e, w1)
      | (Inr Returned, w1) \<Rightarrow> (Inr (), w1)
      | (Inr (Awaiting req), w1) \<Rightarrow> analyzeFrame_resume p cl n w1)"

text \<open>
  The timer of handle \<open>h\<close> comes due: the host calls the \<^verbatim>\<open>analyzeFrame\<close> it was
  given, if the timer is still there.
\<close>

definition timer_fires ::
  "nat \<Rightarrow> capture_env \<Rightarrow> world \<Rightarrow> (js_error + started) \<times> world" where
  "timer_fires h c w =
     (case map_of (intervals w) h of
        None \<Rightarrow> (Inr Returned, w)
      | Some cl \<Rightarrow> analyzeFrame_start cl c w)"

section \<open>A concrete page, for evaluating the definitions\<close>

text \<open>
  \<^verbatim>\<open>JSON.parse\<close> restricted to a few texts: three verdict objects, \<^verbatim>\<open>null\<close>, and
  a syntax error on every other text.
\<close>

definition example_bad_text :: string where
  "example_bad_text = ''{\"status\":\"bad\",\"message\":\"Sit up straight\"}''"

definition example_good_text :: string where
  "example_good_text = ''{\"status\":\"good\"}''"

definition example_unknown_text :: string where
  "example_unknown_text = ''{\"status\":\"unknown\"}''"

definition example_parse :: "jsval \<Rightarrow> js_error + json" where
  "example_parse t =
     (if t = Some (JStr example_bad_text) then
        Inr (JObj [(''status'', JStr ''bad''), (''message'', JStr ''Sit up straight'')])
      else if t = Some (JStr example_good_text) then
        Inr (JObj [(''status'', JStr ''good'')])
      else if t = Some (JStr example_unknown_text) then
        Inr (JObj [(''status'', JStr ''unknown'')])
      else if t = Some (JStr ''null'') then Inr JNull
      else Inl SyntaxError)"

definition example_platform :: platform where
  "example_platform =
     \<lparr>JSON_parse = example_parse, db = True, currentUser_uid = Some ''u1'',
      speechSynthesis = True, getVoices = [''Alex'', ''Samantha'']\<rparr>"

definition example_capture :: capture_env where
  "example_capture =
     \<lparr>videoRef = Some \<lparr>srcObject = True, videoWidth = 640, videoHeight = 480\<rparr>,
      canvasRef = True, getContext = True, drawImage = None,
      toDataURL = Inr ''data:image/jpeg;base64,/9j/4AAQ''\<rparr>"

definition example_response :: "nat \<Rightarrow> string \<Rightarrow> fetch_outcome" where
  "example_response code text =
     Responded code (Inr (JObj [(''candidates'',
       JArr [JObj [(''content'', JObj [(''parts'', JArr [JObj [(''text'', JStr text)]])])]])]))"

definition example_closure :: closure where
  "example_closure = \<lparr>c_mode = Homework, c_apiKey = ''key''\<rparr>"

definition example_settle :: "string \<Rightarrow> settle_env" where
  "example_settle text =
     \<lparr>fetched = example_response 200 text, synth_speaking = False, addDoc_fails = None\<rparr>"




text \<open>A cycle in which the canvas gives no 2d context.\<close>

definition example_no_context :: capture_env where
  "example_no_context = example_capture\<lparr>getContext := False\<rparr>"

text \<open>
  A session started with a key, whose first cycle is awaiting the network; and the
  same session after the button is pressed again.
\<close>

definition example_pending_world :: world where
  "example_pending_world =
     snd (timer_fires 1 example_capture (toggleMonitoring (initial_world ''key'')))"

definition example_stopped_world :: world where
  "example_stopped_world = toggleMonitoring example_pending_world"

section \<open>Shared facts\<close>

lemma analyzeFrame_awaiting:
  assumes "videoRef c \<noteq> None" and "canvasRef c" and "capture c = Inr img"
  shows "analyzeFrame p cl c n w =
           analyzeFrame_resume p cl n
             (w\<lparr>status := Analyzing,
                requests := requests w @
                  [\<lparr>req_key = c_apiKey cl, req_prompt = prompt_of (c_mode cl), req_data = img\<rparr>]\<rparr>)"
  using assms by (auto simp add: analyzeFrame_def analyzeFrame_start_def Let_def)

lemma speakText_fields [simp]:
  "calls (speakText p s t w) = calls w @ [Call_speakText t]"
  "status (speakText p s t w) = status w"
  "lastMessage (speakText p s t w) = lastMessage w"
  "isActive (speakText p s t w) = isActive w"
  "intervals (speakText p s t w) = intervals w"
  "monitor_logs (speakText p s t w) = monitor_logs w"
  by (simp_all add: speakText_def Let_def)

lemma logEvent_fields [simp]:
  "fst (logEvent p cl f m t w) = Inr ()"
  "calls (snd (logEvent p cl f m t w)) = calls w @ [Call_logEvent m t]"
  "status (snd (logEvent p cl f m t w)) = status w"
  "lastMessage (snd (logEvent p cl f m t w)) = lastMessage w"
  "isActive (snd (logEvent p cl f m t w)) = isActive w"
  "intervals (snd (logEvent p cl f m t w)) = intervals w"
  "intervalRef (snd (logEvent p cl f m t w)) = intervalRef w"
  "spoken (snd (logEvent p cl f m t w)) = spoken w"
  by (simp_all add: logEvent_def addDoc_def Let_def split: option.splits)

lemma resume_bad:
  assumes "analyze p (fetched n) = Inr result"
      and "get_prop (Some result) ''status'' = Inr (Some (JStr ''bad''))"
      and "get_prop (Some result) ''message'' = Inr m"
  shows "analyzeFrame_resume p cl n w =
           (Inr (), snd (logEvent p cl (addDoc_fails n) m ''violation''
                      (speakText p (synth_speaking n) m (w\<lparr>status := Warning, lastMessage := m\<rparr>))))"
  using assms by (simp add: analyzeFrame_resume_def Let_def)

lemma resume_not_bad:
  assumes "analyze p (fetched n) = Inr result"
      and "get_prop (Some result) ''status'' = Inr st"
      and "st \<noteq> Some (JStr ''bad'')"
  shows "analyzeFrame_resume p cl n w =
           (Inr (), w\<lparr>status := Good, lastMessage := Some (JStr ''Mom is happy.'')\<rparr>)"
  using assms by (simp add: analyzeFrame_resume_def)

lemma resume_thrown:
  assumes "analyze p (fetched n) = Inl e"
  shows "analyzeFrame_resume p cl n w =
           (Inr (), w\<lparr>console := console w @ [(''AI Error:'', e)], status := Error\<rparr>)"
  using assms by (simp add: analyzeFrame_resume_def catch_AI_error_def)

lemma resume_null:
  assumes "analyze p (fetched n) = Inr JNull"
  shows "analyzeFrame_resume p cl n w =
           (Inr (), w\<lparr>console := console w @ [(''AI Error:'', TypeError)], status := Error\<rparr>)"
  using assms by (simp add: analyzeFrame_resume_def catch_AI_error_def)

lemma get_prop_not_null:
  assumes "result \<noteq> JNull"
  shows "\<exists>v. get_prop (Some result) k = Inr v"
  using assms by (cases result) simp_all

lemma message_of_status:
  assumes "get_prop (Some result) ''status'' = Inr st"
  shows "\<exists>m. get_prop (Some result) ''message'' = Inr m"
  using assms by (cases result) simp_all

lemma status_resume_cases:
  "status (snd (analyzeFrame_resume p cl n w)) \<in> {Good, Warning, Error}"
proof (cases "analyze p (fetched n)")
  case (Inl e)
  then show ?thesis by (simp add: resume_thrown)
next
  case (Inr result)
  show ?thesis
  proof (cases "get_prop (Some result) ''status''")
    case (Inl e)
    with Inr show ?thesis by (simp add: analyzeFrame_resume_def catch_AI_error_def)
  next
    case st: (Inr st)
    show ?thesis
    proof (cases "st = Some (JStr ''bad'')")
      case True
      from message_of_status [OF st] obtain m where "get_prop (Some result) ''message'' = Inr m" ..
      with Inr st True show ?thesis by (simp add: resume_bad)
    next
      case False
      with Inr st show ?thesis by (simp add: resume_not_bad)
    qed
  qed
qed

lemma status_resume_any_world:
  "status (snd (analyzeFrame_resume p cl n w)) = status (snd (analyzeFrame_resume p cl n w'))"
proof (cases "analyze p (fetched n)")
  case (Inl e)
  then show ?thesis by (simp add: resume_thrown)
next
  case (Inr result)
  show ?thesis
  proof (cases "get_prop (Some result) ''status''")
    case (Inl e)
    with Inr show ?thesis by (simp add: analyzeFrame_resume_def catch_AI_error_def)
  next
    case st: (Inr st)
    show ?thesis
    proof (cases "st = Some (JStr ''bad'')")
      case True
      from message_of_status [OF st] obtain m where "get_prop (Some result) ''message'' = Inr m" ..
      with Inr st True show ?thesis by (simp add: resume_bad)
    next
      case False
      with Inr st show ?thesis by (simp add: resume_not_bad)
    qed
  qed
qed

lemma map_of_clearInterval: "map_of (clearInterval (Some h) ts) h = None"
  by (induction ts) (auto simp add: clearInterval_def)

lemma example_analyze:
  "JSON_parse p (Some (JStr text)) = r \<Longrightarrow> analyze p (example_response code text) = r"
  by (simp add: analyze_def example_response_def candidate_text_def)

lemma example_start:
  "videoRef example_capture \<noteq> None" "canvasRef example_capture"
  "capture example_capture = Inr (Some (JStr ''/9j/4AAQ''))"
  by (simp_all add: example_capture_def capture_def split_comma_1_def)

lemma resume_addDoc_fails:
  "fst (analyzeFrame_resume p cl (n\<lparr>addDoc_fails := f\<rparr>) w) = fst (analyzeFrame_resume p cl n w)"
  "status (snd (analyzeFrame_resume p cl (n\<lparr>addDoc_fails := f\<rparr>) w)) =
     status (snd (analyzeFrame_resume p cl n w))"
  "lastMessage (snd (analyzeFrame_resume p cl (n\<lparr>addDoc_fails := f\<rparr>) w)) =
     lastMessage (snd (analyzeFrame_resume p cl n w))"
proof -
  let ?n = "n\<lparr>addDoc_fails := f\<rparr>"
  have "fst (analyzeFrame_resume p cl ?n w) = fst (analyzeFrame_resume p cl n w)
      \<and> status (snd (analyzeFrame_resume p cl ?n w)) = status (snd (analyzeFrame_resume p cl n w))
      \<and> lastMessage (snd (analyzeFrame_resume p cl ?n w)) =
          lastMessage (snd (analyzeFrame_resume p cl n w))"
  proof (cases "analyze p (fetched n)")
    case (Inl e)
    then have "analyze p (fetched ?n) = Inl e" by simp
    with Inl show ?thesis by (simp add: resume_thrown)
  next
    case (Inr result)
    then have r: "analyze p (fetched ?n) = Inr result" by simp
    show ?thesis
    proof (cases "get_prop (Some result) ''status''")
      case (Inl e)
      with Inr r show ?thesis by (simp add: analyzeFrame_resume_def catch_AI_error_def)
    next
      case st: (Inr st)
      show ?thesis
      proof (cases "st = Some (JStr ''bad'')")
        case True
        from message_of_status [OF st] obtain m where m: "get_prop (Some result) ''message'' = Inr m" ..
        from st True have s: "get_prop (Some result) ''status'' = Inr (Some (JStr ''bad''))" by simp
        show ?thesis by (simp add: resume_bad [OF Inr s m] resume_bad [OF r s m])
      next
        case False
        show ?thesis by (simp add: resume_not_bad [OF Inr st False] resume_not_bad [OF r st False])
      qed
    qed
  qed
  then show
    "fst (analyzeFrame_resume p cl (n\<lparr>addDoc_fails := f\<rparr>) w) = fst (analyzeFrame_resume p cl n w)"
    "status (snd (analyzeFrame_resume p cl (n\<lparr>addDoc_fails := f\<rparr>) w)) =
       status (snd (analyzeFrame_resume p cl n w))"
    "lastMessage (snd (analyzeFrame_resume p cl (n\<lparr>addDoc_fails := f\<rparr>) w)) =
       lastMessage (snd (analyzeFrame_resume p cl n w))"
    by simp_all
qed

lemma analyze_Inl_iff:
  "(analyze p r = Inl e) =
     (response_data r = Inl e
      \<or> (\<exists>data. response_data r = Inr data
            \<and> (candidate_text data = Inl e
               \<or> (\<exists>t. candidate_text data = Inr t \<and> JSON_parse p t = Inl e))))"
  by (auto simp add: analyze_def split: sum.splits)

lemma example_pending:
  "timer_fires 1 example_capture (toggleMonitoring (initial_world ''key'')) =
     (Inr (Awaiting \<lparr>req_key = ''key'', req_prompt = HomeworkPrompt,
                     req_data = Some (JStr ''/9j/4AAQ'')\<rparr>),
      example_pending_world)"
  by (simp add: example_pending_world_def timer_fires_def toggleMonitoring_def
        initial_world_def analyzeFrame_start_def example_start prompt_of_def Let_def)

lemma example_stopped:
  "\<not> isActive example_stopped_world"
  "status example_stopped_world = Idle"
  "lastMessage example_stopped_world = Some (JStr ''Monitoring paused.'')"
  "intervals example_stopped_world = []"
  by (simp_all add: example_stopped_world_def example_pending_world_def timer_fires_def
        toggleMonitoring_def initial_world_def analyzeFrame_start_def example_start
        clearInterval_def Let_def)

lemma fst_resume: "fst (analyzeFrame_resume p cl n w) = Inr ()"
proof (cases "analyze p (fetched n)")
  case (Inl e)
  then show ?thesis by (simp add: resume_thrown)
next
  case (Inr result)
  show ?thesis
  proof (cases "get_prop (Some result) ''status''")
    case (Inl e)
    with Inr show ?thesis by (simp add: analyzeFrame_resume_def catch_AI_error_def)
  next
    case st: (Inr st)
    show ?thesis
    proof (cases "st = Some (JStr ''bad'')")
      case True
      from message_of_status [OF st] obtain m where "get_prop (Some result) ''message'' = Inr m" ..
      with Inr st True show ?thesis by (simp add: resume_bad)
    next
      case False
      with Inr st show ?thesis by (simp add: resume_not_bad)
    qed
  qed
qed

lemma resume_other_world:
  "snd (analyzeFrame_resume p cl n
          (w\<lparr>intervals := ts, isActive := a, status := Idle, lastMessage := x\<rparr>)) =
   (snd (analyzeFrame_resume p cl n w))
     \<lparr>intervals := ts, isActive := a,
      lastMessage := (if status (snd (analyzeFrame_resume p cl n w)) = Error then x
                      else lastMessage (snd (analyzeFrame_resume p cl n w)))\<rparr>"
proof (cases "analyze p (fetched n)")
  case (Inl e)
  then show ?thesis by (simp add: resume_thrown)
next
  case (Inr result)
  show ?thesis
  proof (cases "get_prop (Some result) ''status''")
    case (Inl e)
    with Inr show ?thesis by (simp add: analyzeFrame_resume_def catch_AI_error_def)
  next
    case st: (Inr st)
    show ?thesis
    proof (cases "st = Some (JStr ''bad'')")
      case True
      from message_of_status [OF st] obtain m where m: "get_prop (Some result) ''message'' = Inr m" ..
      from st True have s: "get_prop (Some result) ''status'' = Inr (Some (JStr ''bad''))" by simp
      show ?thesis
        by (simp add: resume_bad [OF Inr s m] logEvent_def addDoc_def speakText_def Let_def
              split: option.splits)
    next
      case False
      show ?thesis by (simp add: resume_not_bad [OF Inr st False])
    qed
  qed
qed

section \<open>Claims\<close>

subsection \<open>C1: a bad verdict\<close>

text \<open>
  C1. A cycle that reaches the network call and whose analysis returns a verdict with
  status \<^verbatim>\<open>"bad"\<close> and a message returns normally, sets the status to warning, stores
  that message as the last message, and calls \<^verbatim>\<open>speakText\<close> exactly once, with that
  message, and \<^verbatim>\<open>logEvent\<close> exactly once, with that message and the type
  \<^verbatim>\<open>violation\<close>.
\<close>

theorem bad_verdict_cycle:
  assumes "videoRef c \<noteq> None" and "canvasRef c" and "capture c = Inr img"
      and "analyze p (fetched n) = Inr result"
      and "get_prop (Some result) ''status'' = Inr (Some (JStr ''bad''))"
      and "get_prop (Some result) ''message'' = Inr (Some m)"
  shows "fst (analyzeFrame p cl c n w) = Inr ()
       \<and> status (snd (analyzeFrame p cl c n w)) = Warning
       \<and> lastMessage (snd (analyzeFrame p cl c n w)) = Some m
       \<and> calls (snd (analyzeFrame p cl c n w)) =
           calls w @ [Call_speakText (Some m), Call_logEvent (Some m) ''violation'']"
  by (simp add: analyzeFrame_awaiting [OF assms(1-3)] resume_bad [OF assms(4-6)])

theorem bad_verdict_cycle_witness:
  "videoRef example_capture \<noteq> None \<and> canvasRef example_capture
   \<and> capture example_capture = Inr (Some (JStr ''/9j/4AAQ''))
   \<and> analyze example_platform (fetched (example_settle example_bad_text)) =
        Inr (JObj [(''status'', JStr ''bad''), (''message'', JStr ''Sit up straight'')])
   \<and> fst (analyzeFrame example_platform example_closure example_capture
            (example_settle example_bad_text) (initial_world ''key'')) = Inr ()
   \<and> status (snd (analyzeFrame example_platform example_closure example_capture
            (example_settle example_bad_text) (initial_world ''key''))) = Warning
   \<and> lastMessage (snd (analyzeFrame example_platform example_closure example_capture
            (example_settle example_bad_text) (initial_world ''key'')))
        = Some (JStr ''Sit up straight'')
   \<and> calls (snd (analyzeFrame example_platform example_closure example_capture
            (example_settle example_bad_text) (initial_world ''key'')))
        = [Call_speakText (Some (JStr ''Sit up straight'')),
           Call_logEvent (Some (JStr ''Sit up straight'')) ''violation'']"
proof -
  have a: "analyze example_platform (fetched (example_settle example_bad_text))
           = Inr (JObj [(''status'', JStr ''bad''), (''message'', JStr ''Sit up straight'')])"
    by (simp add: example_settle_def example_analyze example_platform_def example_parse_def)
  have s: "get_prop (Some (JObj [(''status'', JStr ''bad''), (''message'', JStr ''Sit up straight'')]))
             ''status'' = Inr (Some (JStr ''bad''))"
    by simp
  have m: "get_prop (Some (JObj [(''status'', JStr ''bad''), (''message'', JStr ''Sit up straight'')]))
             ''message'' = Inr (Some (JStr ''Sit up straight''))"
    by simp
  show ?thesis
    using bad_verdict_cycle [OF example_start a s m, of example_closure "initial_world ''key''"] a
    by (simp add: example_start initial_world_def)
qed

subsection \<open>C2: a good verdict\<close>

text \<open>
  C2. A cycle that reaches the network call and whose analysis returns a verdict with
  status \<^verbatim>\<open>"good"\<close> returns normally, sets the status to good and the last message to
  the fixed \<^verbatim>\<open>"Mom is happy."\<close>, and calls neither \<^verbatim>\<open>speakText\<close> nor
  \<^verbatim>\<open>logEvent\<close>: nothing reaches the speech device or the sink.
\<close>

theorem good_verdict_cycle:
  assumes "videoRef c \<noteq> None" and "canvasRef c" and "capture c = Inr img"
      and "analyze p (fetched n) = Inr result"
      and "get_prop (Some result) ''status'' = Inr (Some (JStr ''good''))"
  shows "fst (analyzeFrame p cl c n w) = Inr ()
       \<and> status (snd (analyzeFrame p cl c n w)) = Good
       \<and> lastMessage (snd (analyzeFrame p cl c n w)) = Some (JStr ''Mom is happy.'')
       \<and> calls (snd (analyzeFrame p cl c n w)) = calls w
       \<and> spoken (snd (analyzeFrame p cl c n w)) = spoken w
       \<and> monitor_logs (snd (analyzeFrame p cl c n w)) = monitor_logs w"
proof -
  have "Some (JStr ''good'') \<noteq> Some (JStr ''bad'')" by simp
  from resume_not_bad [OF assms(4) assms(5) this] show ?thesis
    by (simp add: analyzeFrame_awaiting [OF assms(1-3)])
qed

theorem good_verdict_cycle_witness:
  "videoRef example_capture \<noteq> None \<and> canvasRef example_capture
   \<and> capture example_capture = Inr (Some (JStr ''/9j/4AAQ''))
   \<and> analyze example_platform (fetched (example_settle example_good_text)) =
        Inr (JObj [(''status'', JStr ''good'')])
   \<and> fst (analyzeFrame example_platform example_closure example_capture
            (example_settle example_good_text) (initial_world ''key'')) = Inr ()
   \<and> status (snd (analyzeFrame example_platform example_closure example_capture
            (example_settle example_good_text) (initial_world ''key''))) = Good
   \<and> lastMessage (snd (analyzeFrame example_platform example_closure example_capture
            (example_settle example_good_text) (initial_world ''key'')))
        = Some (JStr ''Mom is happy.'')
   \<and> calls (snd (analyzeFrame example_platform example_closure example_capture
            (example_settle example_good_text) (initial_world ''key''))) = []
   \<and> spoken (snd (analyzeFrame example_platform example_closure example_capture
            (example_settle example_good_text) (initial_world ''key''))) = []
   \<and> monitor_logs (snd (analyzeFrame example_platform example_closure example_capture
            (example_settle example_good_text) (initial_world ''key''))) = []"
proof -
  have a: "analyze example_platform (fetched (example_settle example_good_text))
           = Inr (JObj [(''status'', JStr ''good'')])"
    by (simp add: example_settle_def example_analyze example_platform_def example_parse_def
          example_good_text_def example_bad_text_def)
  have s: "get_prop (Some (JObj [(''status'', JStr ''good'')])) ''status'' = Inr (Some (JStr ''good''))"
    by simp
  show ?thesis
    using good_verdict_cycle [OF example_start a s, of example_closure "initial_world ''key''"] a
    by (simp add: example_start initial_world_def)
qed

subsection \<open>C3: starting without a credential\<close>

text \<open>
  C3. In either mode, pressing the button while monitoring is off and the API key is
  empty fails: the alert asking for a key is raised and the settings panel is opened.
  No timer is created (the timers and the timer handle are as before), no request is
  sent, monitoring stays off, and the status and the last message are untouched.
\<close>

theorem start_without_credential:
  assumes "\<not> isActive w" and "apiKey w = []"
  shows "alerts (toggleMonitoring (w\<lparr>mode := m\<rparr>)) =
           alerts w @ [''Please enter a Gemini API Key in settings.'']
       \<and> settingsOpen (toggleMonitoring (w\<lparr>mode := m\<rparr>))
       \<and> intervals (toggleMonitoring (w\<lparr>mode := m\<rparr>)) = intervals w
       \<and> intervalRef (toggleMonitoring (w\<lparr>mode := m\<rparr>)) = intervalRef w
       \<and> \<not> isActive (toggleMonitoring (w\<lparr>mode := m\<rparr>))
       \<and> status (toggleMonitoring (w\<lparr>mode := m\<rparr>)) = status w
       \<and> lastMessage (toggleMonitoring (w\<lparr>mode := m\<rparr>)) = lastMessage w
       \<and> requests (toggleMonitoring (w\<lparr>mode := m\<rparr>)) = requests w"
  using assms by (simp add: toggleMonitoring_def)

theorem start_without_credential_witness:
  "\<not> isActive (initial_world []) \<and> apiKey (initial_world []) = []
   \<and> alerts (toggleMonitoring ((initial_world [])\<lparr>mode := Eating\<rparr>)) =
        [''Please enter a Gemini API Key in settings.'']
   \<and> settingsOpen (toggleMonitoring ((initial_world [])\<lparr>mode := Eating\<rparr>))
   \<and> intervals (toggleMonitoring ((initial_world [])\<lparr>mode := Eating\<rparr>)) = []
   \<and> intervalRef (toggleMonitoring ((initial_world [])\<lparr>mode := Eating\<rparr>)) = None
   \<and> \<not> isActive (toggleMonitoring ((initial_world [])\<lparr>mode := Eating\<rparr>))
   \<and> status (toggleMonitoring ((initial_world [])\<lparr>mode := Eating\<rparr>)) = Idle
   \<and> lastMessage (toggleMonitoring ((initial_world [])\<lparr>mode := Eating\<rparr>)) =
        Some (JStr ''Mom is ready.'')
   \<and> requests (toggleMonitoring ((initial_world [])\<lparr>mode := Eating\<rparr>)) = []"
proof -
  have a: "\<not> isActive (initial_world [])" by (simp add: initial_world_def)
  have k: "apiKey (initial_world []) = []" by (simp add: initial_world_def)
  show ?thesis
    using start_without_credential [OF a k, of Eating] a k by (simp add: initial_world_def)
qed

subsection \<open>C4: a network call that settles after the stop\<close>

text \<open>
  C4, as stated, fails. A session is started, its first cycle sends its request, and
  the button is pressed again: the status is idle and the last message is
  \<^verbatim>\<open>"Monitoring paused."\<close>. The response then arrives with a good verdict, and the
  rest of the cycle sets the status to good and the last message to
  \<^verbatim>\<open>"Mom is happy."\<close>.
\<close>

theorem settle_after_stop_counterexample:
  "fst (timer_fires 1 example_capture (toggleMonitoring (initial_world ''key''))) =
     Inr (Awaiting \<lparr>req_key = ''key'', req_prompt = HomeworkPrompt,
                    req_data = Some (JStr ''/9j/4AAQ'')\<rparr>)
   \<and> \<not> isActive example_stopped_world
   \<and> status example_stopped_world = Idle
   \<and> lastMessage example_stopped_world = Some (JStr ''Monitoring paused.'')
   \<and> status (snd (analyzeFrame_resume example_platform example_closure
                    (example_settle example_good_text) example_stopped_world)) = Good
   \<and> lastMessage (snd (analyzeFrame_resume example_platform example_closure
                    (example_settle example_good_text) example_stopped_world)) =
        Some (JStr ''Mom is happy.'')"
proof -
  have a: "analyze example_platform (fetched (example_settle example_good_text))
           = Inr (JObj [(''status'', JStr ''good'')])"
    by (simp add: example_settle_def example_analyze example_platform_def example_parse_def
          example_good_text_def example_bad_text_def)
  have s: "get_prop (Some (JObj [(''status'', JStr ''good'')])) ''status'' = Inr (Some (JStr ''good''))"
    by simp
  have g: "Some (JStr ''good'') \<noteq> Some (JStr ''bad'')" by simp
  show ?thesis
    using example_pending by (simp add: example_stopped resume_not_bad [OF a s g])
qed

text \<open>
  C4, amended. Pressing the button while monitoring is on cancels the timer, so that it
  starts no further cycle, and sets the status to idle and the last message to
  \<^verbatim>\<open>"Monitoring paused."\<close>. A cycle that is awaiting the network is not cancelled:
  when its call settles, the rest of the cycle does to the stopped page what it would
  have done to the running one. It leaves the same status (good, warning or error), the
  same calls of \<^verbatim>\<open>speakText\<close> and \<^verbatim>\<open>logEvent\<close>, the same utterances, documents
  and console lines, and the same last message, except that after a failure the last
  message is the \<^verbatim>\<open>"Monitoring paused."\<close> of the stop; the timer stays cancelled and
  monitoring stays off.
\<close>

theorem stop_keeps_pending_cycle:
  assumes "isActive w" and "intervalRef w = Some h"
  shows "\<not> isActive (toggleMonitoring w)
       \<and> status (toggleMonitoring w) = Idle
       \<and> lastMessage (toggleMonitoring w) = Some (JStr ''Monitoring paused.'')
       \<and> timer_fires h c (toggleMonitoring w) = (Inr Returned, toggleMonitoring w)
       \<and> status (snd (analyzeFrame_resume p cl n (toggleMonitoring w))) \<in> {Good, Warning, Error}
       \<and> status (snd (analyzeFrame_resume p cl n (toggleMonitoring w))) =
           status (snd (analyzeFrame_resume p cl n w))
       \<and> fst (analyzeFrame_resume p cl n (toggleMonitoring w)) =
           fst (analyzeFrame_resume p cl n w)
       \<and> snd (analyzeFrame_resume p cl n (toggleMonitoring w)) =
           (snd (analyzeFrame_resume p cl n w))
             \<lparr>intervals := intervals (toggleMonitoring w), isActive := False,
              lastMessage :=
                (if status (snd (analyzeFrame_resume p cl n w)) = Error
                 then Some (JStr ''Monitoring paused.'')
                 else lastMessage (snd (analyzeFrame_resume p cl n w)))\<rparr>"
proof -
  have t: "toggleMonitoring w =
      w\<lparr>intervals := clearInterval (intervalRef w) (intervals w), isActive := False,
        status := Idle, lastMessage := Some (JStr ''Monitoring paused.'')\<rparr>"
    using assms by (simp add: toggleMonitoring_def)
  have "map_of (intervals (toggleMonitoring w)) h = None"
    using assms by (simp add: toggleMonitoring_def map_of_clearInterval)
  then have f: "timer_fires h c (toggleMonitoring w) = (Inr Returned, toggleMonitoring w)"
    by (simp add: timer_fires_def)
  have i: "intervals (toggleMonitoring w) = clearInterval (intervalRef w) (intervals w)"
    by (simp add: t)
  have r: "snd (analyzeFrame_resume p cl n (toggleMonitoring w)) =
      (snd (analyzeFrame_resume p cl n w))
        \<lparr>intervals := intervals (toggleMonitoring w), isActive := False,
         lastMessage :=
           (if status (snd (analyzeFrame_resume p cl n w)) = Error
            then Some (JStr ''Monitoring paused.'')
            else lastMessage (snd (analyzeFrame_resume p cl n w)))\<rparr>"
    unfolding i unfolding t by (rule resume_other_world)
  have "\<not> isActive (toggleMonitoring w)" "status (toggleMonitoring w) = Idle"
    "lastMessage (toggleMonitoring w) = Some (JStr ''Monitoring paused.'')"
    by (simp_all add: t)
  with f r show ?thesis
    using status_resume_cases [of p cl n "toggleMonitoring w"]
      status_resume_any_world [of p cl n "toggleMonitoring w" w]
    by (simp add: fst_resume)
qed

theorem stop_keeps_pending_cycle_witness:
  "isActive example_pending_world \<and> intervalRef example_pending_world = Some 1
   \<and> \<not> isActive (toggleMonitoring example_pending_world)
   \<and> status (toggleMonitoring example_pending_world) = Idle
   \<and> timer_fires 1 example_capture (toggleMonitoring example_pending_world) =
        (Inr Returned, toggleMonitoring example_pending_world)
   \<and> status (snd (analyzeFrame_resume example_platform example_closure
                    (example_settle example_bad_text) (toggleMonitoring example_pending_world)))
        = Warning
   \<and> lastMessage (snd (analyzeFrame_resume example_platform example_closure
                    (example_settle example_bad_text) (toggleMonitoring example_pending_world)))
        = Some (JStr ''Sit up straight'')
   \<and> calls (snd (analyzeFrame_resume example_platform example_closure
                    (example_settle example_bad_text) (toggleMonitoring example_pending_world)))
        = [Call_speakText (Some (JStr ''Sit up straight'')),
           Call_logEvent (Some (JStr ''Sit up straight'')) ''violation'']
   \<and> spoken (snd (analyzeFrame_resume example_platform example_closure
                    (example_settle example_bad_text) (toggleMonitoring example_pending_world)))
        = [\<lparr>u_text = Some (JStr ''Sit up straight''), u_rate = 1, u_pitch = 11 / 10,
            u_voice = Some ''Samantha''\<rparr>]
   \<and> monitor_logs (snd (analyzeFrame_resume example_platform example_closure
                    (example_settle example_bad_text) (toggleMonitoring example_pending_world)))
        = [\<lparr>d_mode = Homework, d_message = Some (JStr ''Sit up straight''),
            d_type = ''violation'', d_uid = ''u1''\<rparr>]
   \<and> intervals (snd (analyzeFrame_resume example_platform example_closure
                    (example_settle example_bad_text) (toggleMonitoring example_pending_world)))
        = []"
proof -
  have w: "example_pending_world =
      \<lparr>isActive = True, mode = Homework, status = Analyzing,
       lastMessage = Some (JStr ''Mom is watching...''), settingsOpen = False,
       apiKey = ''key'', intervalRef = Some 1,
       intervals = [(1, \<lparr>c_mode = Homework, c_apiKey = ''key''\<rparr>)], next_handle = 2,
       alerts = [], console = [], spoken = [], monitor_logs = [],
       requests = [\<lparr>req_key = ''key'', req_prompt = HomeworkPrompt,
                    req_data = Some (JStr ''/9j/4AAQ'')\<rparr>],
       calls = []\<rparr>"
    by (simp add: example_pending_world_def timer_fires_def toggleMonitoring_def
          initial_world_def analyzeFrame_start_def example_start prompt_of_def Let_def)
  have a: "isActive example_pending_world" by (simp add: w)
  have r: "intervalRef example_pending_world = Some 1" by (simp add: w)
  have b: "analyze example_platform (fetched (example_settle example_bad_text))
           = Inr (JObj [(''status'', JStr ''bad''), (''message'', JStr ''Sit up straight'')])"
    by (simp add: example_settle_def example_analyze example_platform_def example_parse_def)
  have s: "get_prop (Some (JObj [(''status'', JStr ''bad''), (''message'', JStr ''Sit up straight'')]))
             ''status'' = Inr (Some (JStr ''bad''))"
    by simp
  have m: "get_prop (Some (JObj [(''status'', JStr ''bad''), (''message'', JStr ''Sit up straight'')]))
             ''message'' = Inr (Some (JStr ''Sit up straight''))"
    by simp
  have e: "snd (analyzeFrame_resume example_platform example_closure
                 (example_settle example_bad_text) example_pending_world) =
      example_pending_world
        \<lparr>status := Warning, lastMessage := Some (JStr ''Sit up straight''),
         spoken := [\<lparr>u_text = Some (JStr ''Sit up straight''), u_rate = 1, u_pitch = 11 / 10,
                     u_voice = Some ''Samantha''\<rparr>],
         monitor_logs := [\<lparr>d_mode = Homework, d_message = Some (JStr ''Sit up straight''),
                           d_type = ''violation'', d_uid = ''u1''\<rparr>],
         calls := [Call_speakText (Some (JStr ''Sit up straight'')),
                   Call_logEvent (Some (JStr ''Sit up straight'')) ''violation'']\<rparr>"
    unfolding resume_bad [OF b s m]
    by (simp add: w logEvent_def addDoc_def speakText_def femaleVoice_def Let_def
          example_settle_def uid_or_anon_def example_closure_def example_platform_def)
  have i: "intervals (toggleMonitoring example_pending_world) = []"
    by (simp add: toggleMonitoring_def w clearInterval_def)
  show ?thesis
    using stop_keeps_pending_cycle [OF a r, of example_capture example_platform example_closure
        "example_settle example_bad_text"] a r
    by (simp add: e i)
qed

subsection \<open>C5: a failure thrown during a cycle\<close>

text \<open>
  C5, as stated, fails for the sampler. The capture of lines 96-102 stands before the
  \<^verbatim>\<open>try\<close>: when the canvas gives no 2d context, \<^verbatim>\<open>ctx.drawImage\<close> throws a
  TypeError that leaves \<^verbatim>\<open>analyzeFrame\<close>, and the status stays analyzing.
\<close>

theorem capture_throws_counterexample:
  "fst (analyzeFrame example_platform example_closure example_no_context
          (example_settle example_good_text) (initial_world ''key'')) = Inl TypeError
   \<and> status (snd (analyzeFrame example_platform example_closure example_no_context
          (example_settle example_good_text) (initial_world ''key''))) = Analyzing"
  by (simp add: analyzeFrame_def analyzeFrame_start_def example_no_context_def
        example_capture_def capture_def initial_world_def Let_def)

text \<open>
  C5, amended to the client. In every cycle that reaches the network call and in which
  the client throws (the \<^verbatim>\<open>fetch\<close> is rejected, the body of the response is not
  JSON, the path to the candidate text is missing, the candidate text is not JSON, or
  the parsed verdict is \<^verbatim>\<open>null\<close>), the handler catches the failure: the cycle
  returns normally, the status is error, the last message is the one before the cycle,
  and neither \<^verbatim>\<open>speakText\<close> nor \<^verbatim>\<open>logEvent\<close> is called.
\<close>

theorem client_failure_cycle:
  assumes "videoRef c \<noteq> None" and "canvasRef c" and "capture c = Inr img"
      and "analyze p (fetched n) = Inl e \<or> analyze p (fetched n) = Inr JNull"
  shows "fst (analyzeFrame p cl c n w) = Inr ()
       \<and> status (snd (analyzeFrame p cl c n w)) = Error
       \<and> lastMessage (snd (analyzeFrame p cl c n w)) = lastMessage w
       \<and> calls (snd (analyzeFrame p cl c n w)) = calls w"
  using assms(4)
proof
  assume "analyze p (fetched n) = Inl e"
  then show ?thesis
    by (simp add: analyzeFrame_awaiting [OF assms(1-3)] resume_thrown)
next
  assume "analyze p (fetched n) = Inr JNull"
  then show ?thesis
    by (simp add: analyzeFrame_awaiting [OF assms(1-3)] resume_null)
qed

theorem client_failure_cycle_witness:
  "videoRef example_capture \<noteq> None \<and> canvasRef example_capture
   \<and> capture example_capture = Inr (Some (JStr ''/9j/4AAQ''))
   \<and> JSON_parse example_platform (Some (JStr ''Sit up straight'')) = Inl SyntaxError
   \<and> analyze example_platform (fetched (example_settle ''Sit up straight'')) = Inl SyntaxError
   \<and> fst (analyzeFrame example_platform example_closure example_capture
            (example_settle ''Sit up straight'') (initial_world ''key'')) = Inr ()
   \<and> status (snd (analyzeFrame example_platform example_closure example_capture
            (example_settle ''Sit up straight'') (initial_world ''key''))) = Error
   \<and> lastMessage (snd (analyzeFrame example_platform example_closure example_capture
            (example_settle ''Sit up straight'') (initial_world ''key''))) =
        Some (JStr ''Mom is ready.'')
   \<and> calls (snd (analyzeFrame example_platform example_closure example_capture
            (example_settle ''Sit up straight'') (initial_world ''key''))) = []"
proof -
  have j: "JSON_parse example_platform (Some (JStr ''Sit up straight'')) = Inl SyntaxError"
    by (simp add: example_platform_def example_parse_def example_bad_text_def
          example_good_text_def example_unknown_text_def)
  have a: "analyze example_platform (fetched (example_settle ''Sit up straight'')) = Inl SyntaxError"
    by (simp add: example_settle_def example_analyze [OF j])
  then have d: "analyze example_platform (fetched (example_settle ''Sit up straight'')) = Inl SyntaxError
      \<or> analyze example_platform (fetched (example_settle ''Sit up straight'')) = Inr JNull"
    by simp
  show ?thesis
    using client_failure_cycle [OF example_start d, of example_closure "initial_world ''key''"] j a
    by (simp add: example_start initial_world_def)
qed

subsection \<open>C6: a cycle without a video source\<close>




subsection \<open>C7: how the client fails\<close>

text \<open>
  C7, as stated, fails. A response with the status code 500 whose body carries a good
  verdict is no failure: the verdict is returned and the cycle sets the status to good.
  A candidate text that is JSON outside the contract (status \<^verbatim>\<open>"unknown"\<close>) is
  returned as a verdict too.
\<close>

theorem http_status_counterexample:
  "analyze example_platform (example_response 500 example_good_text) =
     Inr (JObj [(''status'', JStr ''good'')])
   \<and> status (snd (analyzeFrame_resume example_platform example_closure
        \<lparr>fetched = example_response 500 example_good_text, synth_speaking = False,
         addDoc_fails = None\<rparr> (initial_world ''key''))) = Good
   \<and> analyze example_platform (example_response 200 example_unknown_text) =
     Inr (JObj [(''status'', JStr ''unknown'')])"
proof -
  have a: "analyze example_platform (example_response 500 example_good_text)
           = Inr (JObj [(''status'', JStr ''good'')])"
    by (simp add: example_analyze example_platform_def example_parse_def
          example_good_text_def example_bad_text_def)
  have u: "analyze example_platform (example_response 200 example_unknown_text)
           = Inr (JObj [(''status'', JStr ''unknown'')])"
    by (simp add: example_analyze example_platform_def example_parse_def
          example_good_text_def example_bad_text_def example_unknown_text_def)
  have s: "get_prop (Some (JObj [(''status'', JStr ''good'')])) ''status'' = Inr (Some (JStr ''good''))"
    by simp
  have g: "Some (JStr ''good'') \<noteq> Some (JStr ''bad'')" by simp
  have "analyze example_platform
          (fetched \<lparr>fetched = example_response 500 example_good_text, synth_speaking = False,
                    addDoc_fails = None\<rparr>) = Inr (JObj [(''status'', JStr ''good'')])"
    using a by simp
  from resume_not_bad [OF this s g] a u show ?thesis
    by simp
qed

text \<open>
  C7, amended. The client does not read the status code of the response and does not
  classify its failures. It throws exactly when the \<^verbatim>\<open>fetch\<close> is rejected,
  \<^verbatim>\<open>response.json()\<close> is rejected, a property read on the path to the candidate
  text throws, or \<^verbatim>\<open>JSON.parse\<close> of the candidate text throws; the result is the same
  for every status code; and whatever was thrown, the cycle ends with the one status
  error.
\<close>

theorem analyze_failures_unclassified:
  "analyze p (Responded code body) = analyze p (Responded code' body)
   \<and> (analyze p r = Inl e) =
       (response_data r = Inl e
        \<or> (\<exists>data. response_data r = Inr data
              \<and> (candidate_text data = Inl e
                 \<or> (\<exists>t. candidate_text data = Inr t \<and> JSON_parse p t = Inl e))))
   \<and> (analyze p (fetched n) = Inl e' \<longrightarrow>
        status (snd (analyzeFrame_resume p cl n w)) = Error)"
proof -
  have "analyze p (Responded code body) = analyze p (Responded code' body)"
    by (simp add: analyze_def)
  moreover note analyze_Inl_iff [of p r e]
  moreover have "analyze p (fetched n) = Inl e' \<longrightarrow>
      status (snd (analyzeFrame_resume p cl n w)) = Error"
    by (simp add: resume_thrown)
  ultimately show ?thesis by blast
qed

theorem analyze_failures_unclassified_witness:
  "analyze example_platform (fetched (example_settle ''Sit up straight'')) = Inl SyntaxError
   \<and> status (snd (analyzeFrame_resume example_platform example_closure
                    (example_settle ''Sit up straight'') (initial_world ''key''))) = Error
   \<and> analyze example_platform (example_response 200 ''Sit up straight'') =
       analyze example_platform (example_response 404 ''Sit up straight'')"
proof -
  have j: "JSON_parse example_platform (Some (JStr ''Sit up straight'')) = Inl SyntaxError"
    by (simp add: example_platform_def example_parse_def example_bad_text_def
          example_good_text_def example_unknown_text_def)
  have a: "analyze example_platform (fetched (example_settle ''Sit up straight'')) = Inl SyntaxError"
    by (simp add: example_settle_def example_analyze [OF j])
  show ?thesis
    using analyze_failures_unclassified [of example_platform 200
        "Inr (JObj [(''candidates'', JArr [JObj [(''content'',
           JObj [(''parts'', JArr [JObj [(''text'', JStr ''Sit up straight'')]])])]])])" 404
        "Rejected TypeError" TypeError "example_settle ''Sit up straight''" SyntaxError
        example_closure "initial_world ''key''"] a
    by (simp add: example_response_def)
qed

subsection \<open>C8: an announcement while the device is speaking\<close>

text \<open>
  C8. When \<^verbatim>\<open>synth.speaking\<close> is true, \<^verbatim>\<open>speakText\<close> does nothing: no utterance
  is handed to the device and nothing else changes (the call itself is all that is
  recorded). Of two calls, the first made while the device is silent and the second
  while it is speaking, only the first utterance reaches the device; of two calls made
  while it is speaking, none does.
\<close>

theorem announce_while_speaking:
  "speakText p True text w = w\<lparr>calls := calls w @ [Call_speakText text]\<rparr>
   \<and> (speechSynthesis p \<longrightarrow>
        spoken (speakText p True t2 (speakText p False t1 w)) =
          spoken w @ [\<lparr>u_text = t1, u_rate = 1, u_pitch = 11 / 10,
                       u_voice = femaleVoice (getVoices p)\<rparr>])
   \<and> spoken (speakText p True t2 (speakText p True t1 w)) = spoken w"
  by (simp add: speakText_def Let_def)

theorem announce_while_speaking_witness:
  "speechSynthesis example_platform
   \<and> spoken (speakText example_platform True (Some (JStr ''Eat your food''))
        (speakText example_platform False (Some (JStr ''Sit up straight'')) (initial_world ''key'')))
      = [\<lparr>u_text = Some (JStr ''Sit up straight''), u_rate = 1, u_pitch = 11 / 10,
          u_voice = Some ''Samantha''\<rparr>]"
proof -
  have h: "speechSynthesis example_platform" by (simp add: example_platform_def)
  have v: "femaleVoice (getVoices example_platform) = Some ''Samantha''"
    by (simp add: example_platform_def femaleVoice_def)
  show ?thesis
    using announce_while_speaking [of example_platform "Some (JStr ''Eat your food'')"
        "initial_world ''key''" "Some (JStr ''Eat your food'')" "Some (JStr ''Sit up straight'')"] h v
    by (simp add: initial_world_def)
qed

subsection \<open>C9: a failing write to the event sink\<close>

text \<open>
  C9. Whatever the write to the sink does, the promise of \<^verbatim>\<open>logEvent\<close> is never
  rejected, and the status, the last message, the activity flag and the timers are as
  before the call. Without a sink, \<^verbatim>\<open>logEvent\<close> does nothing (the call itself is all
  that is recorded). A cycle ends the same way, with the same status and last message,
  whether its write fails or not.
\<close>

theorem record_failure_swallowed:
  "fst (logEvent p cl fails m t w) = Inr ()
   \<and> status (snd (logEvent p cl fails m t w)) = status w
   \<and> lastMessage (snd (logEvent p cl fails m t w)) = lastMessage w
   \<and> isActive (snd (logEvent p cl fails m t w)) = isActive w
   \<and> intervals (snd (logEvent p cl fails m t w)) = intervals w
   \<and> intervalRef (snd (logEvent p cl fails m t w)) = intervalRef w
   \<and> (\<not> db p \<longrightarrow>
        snd (logEvent p cl fails m t w) = w\<lparr>calls := calls w @ [Call_logEvent m t]\<rparr>)
   \<and> fst (analyzeFrame_resume p cl (n\<lparr>addDoc_fails := fails\<rparr>) w) =
        fst (analyzeFrame_resume p cl (n\<lparr>addDoc_fails := None\<rparr>) w)
   \<and> status (snd (analyzeFrame_resume p cl (n\<lparr>addDoc_fails := fails\<rparr>) w)) =
        status (snd (analyzeFrame_resume p cl (n\<lparr>addDoc_fails := None\<rparr>) w))
   \<and> lastMessage (snd (analyzeFrame_resume p cl (n\<lparr>addDoc_fails := fails\<rparr>) w)) =
        lastMessage (snd (analyzeFrame_resume p cl (n\<lparr>addDoc_fails := None\<rparr>) w))"
proof -
  have "\<not> db p \<longrightarrow>
      snd (logEvent p cl fails m t w) = w\<lparr>calls := calls w @ [Call_logEvent m t]\<rparr>"
    by (simp add: logEvent_def Let_def)
  then show ?thesis
    by (simp add: resume_addDoc_fails)
qed

theorem record_failure_swallowed_witness:
  "\<not> db (example_platform\<lparr>db := False\<rparr>)
   \<and> snd (logEvent (example_platform\<lparr>db := False\<rparr>) example_closure None
        (Some (JStr ''Sit up straight'')) ''violation'' (initial_world ''key'')) =
      (initial_world ''key'')\<lparr>calls := [Call_logEvent (Some (JStr ''Sit up straight'')) ''violation'']\<rparr>
   \<and> fst (logEvent example_platform example_closure (Some (DOMException ''unavailable''))
        (Some (JStr ''Sit up straight'')) ''violation'' (initial_world ''key'')) = Inr ()
   \<and> monitor_logs (snd (logEvent example_platform example_closure (Some (DOMException ''unavailable''))
        (Some (JStr ''Sit up straight'')) ''violation'' (initial_world ''key''))) = []
   \<and> status (snd (analyzeFrame_resume example_platform example_closure
        ((example_settle example_bad_text)\<lparr>addDoc_fails := Some (DOMException ''unavailable'')\<rparr>)
        (initial_world ''key''))) = Warning"
proof -
  have h: "\<not> db (example_platform\<lparr>db := False\<rparr>)" by simp
  have b: "analyze example_platform (fetched (example_settle example_bad_text))
           = Inr (JObj [(''status'', JStr ''bad''), (''message'', JStr ''Sit up straight'')])"
    by (simp add: example_settle_def example_analyze example_platform_def example_parse_def)
  have s: "get_prop (Some (JObj [(''status'', JStr ''bad''), (''message'', JStr ''Sit up straight'')]))
             ''status'' = Inr (Some (JStr ''bad''))"
    by simp
  have m: "get_prop (Some (JObj [(''status'', JStr ''bad''), (''message'', JStr ''Sit up straight'')]))
             ''message'' = Inr (Some (JStr ''Sit up straight''))"
    by simp
  have l: "monitor_logs (snd (logEvent example_platform example_closure
        (Some (DOMException ''unavailable'')) (Some (JStr ''Sit up straight'')) ''violation''
        (initial_world ''key''))) = []"
    by (simp add: logEvent_def addDoc_def example_platform_def initial_world_def Let_def)
  have n: "(example_settle example_bad_text)\<lparr>addDoc_fails := None\<rparr> = example_settle example_bad_text"
    by (simp add: example_settle_def)
  show ?thesis
    using record_failure_swallowed [of "example_platform\<lparr>db := False\<rparr>" example_closure None
        "Some (JStr ''Sit up straight'')" "''violation''" "initial_world ''key''"
        "example_settle example_bad_text"]
      record_failure_swallowed [of example_platform example_closure
        "Some (DOMException ''unavailable'')"
        "Some (JStr ''Sit up straight'')" "''violation''" "initial_world ''key''"
        "example_settle example_bad_text"] l
    by (simp add: n resume_bad [OF b s m] initial_world_def)
qed

subsection \<open>C10: a verdict whose status is not bad\<close>

text \<open>
  C10, as stated, fails. The candidate text \<^verbatim>\<open>null\<close> is JSON and has no status, yet
  reading \<^verbatim>\<open>result.status\<close> throws: the cycle ends with the status error.
\<close>

theorem null_verdict_counterexample:
  "analyze example_platform (fetched (example_settle ''null'')) = Inr JNull
   \<and> fst (analyzeFrame example_platform example_closure example_capture
            (example_settle ''null'') (initial_world ''key'')) = Inr ()
   \<and> status (snd (analyzeFrame example_platform example_closure example_capture
            (example_settle ''null'') (initial_world ''key''))) = Error"
proof -
  have j: "JSON_parse example_platform (Some (JStr ''null'')) = Inr JNull"
    by (simp add: example_platform_def example_parse_def example_bad_text_def
          example_good_text_def example_unknown_text_def)
  have a: "analyze example_platform (fetched (example_settle ''null'')) = Inr JNull"
    by (simp add: example_settle_def example_analyze [OF j])
  show ?thesis
    by (simp add: a analyzeFrame_awaiting [OF example_start] resume_null [OF a])
qed

text \<open>
  C10, amended. In every cycle that reaches the network call and whose candidate text
  parses to a JSON value other than \<^verbatim>\<open>null\<close>, if the status of that value is anything
  but the string \<^verbatim>\<open>"bad"\<close> (absent, or any other value), the cycle returns normally,
  sets the status to good and the last message to \<^verbatim>\<open>"Mom is happy."\<close>, and calls
  neither \<^verbatim>\<open>speakText\<close> nor \<^verbatim>\<open>logEvent\<close>.
\<close>

theorem other_status_cycle:
  assumes "videoRef c \<noteq> None" and "canvasRef c" and "capture c = Inr img"
      and "analyze p (fetched n) = Inr result"
      and "result \<noteq> JNull"
      and "get_prop (Some result) ''status'' \<noteq> Inr (Some (JStr ''bad''))"
  shows "fst (analyzeFrame p cl c n w) = Inr ()
       \<and> status (snd (analyzeFrame p cl c n w)) = Good
       \<and> lastMessage (snd (analyzeFrame p cl c n w)) = Some (JStr ''Mom is happy.'')
       \<and> calls (snd (analyzeFrame p cl c n w)) = calls w
       \<and> spoken (snd (analyzeFrame p cl c n w)) = spoken w
       \<and> monitor_logs (snd (analyzeFrame p cl c n w)) = monitor_logs w"
proof -
  from get_prop_not_null [OF assms(5)] obtain st
    where st: "get_prop (Some result) ''status'' = Inr st" ..
  with assms(6) have "st \<noteq> Some (JStr ''bad'')" by auto
  from resume_not_bad [OF assms(4) st this] show ?thesis
    by (simp add: analyzeFrame_awaiting [OF assms(1-3)])
qed

theorem other_status_cycle_witness:
  "videoRef example_capture \<noteq> None \<and> canvasRef example_capture
   \<and> capture example_capture = Inr (Some (JStr ''/9j/4AAQ''))
   \<and> analyze example_platform (fetched (example_settle example_unknown_text)) =
        Inr (JObj [(''status'', JStr ''unknown'')])
   \<and> fst (analyzeFrame example_platform example_closure example_capture
            (example_settle example_unknown_text) (initial_world ''key'')) = Inr ()
   \<and> status (snd (analyzeFrame example_platform example_closure example_capture
            (example_settle example_unknown_text) (initial_world ''key''))) = Good
   \<and> lastMessage (snd (analyzeFrame example_platform example_closure example_capture
            (example_settle example_unknown_text) (initial_world ''key'')))
        = Some (JStr ''Mom is happy.'')
   \<and> calls (snd (analyzeFrame example_platform example_closure example_capture
            (example_settle example_unknown_text) (initial_world ''key''))) = []"
proof -
  have a: "analyze example_platform (fetched (example_settle example_unknown_text))
           = Inr (JObj [(''status'', JStr ''unknown'')])"
    by (simp add: example_settle_def example_analyze example_platform_def example_parse_def
          example_good_text_def example_bad_text_def example_unknown_text_def)
  have z: "JObj [(''status'', JStr ''unknown'')] \<noteq> JNull" by simp
  have s: "get_prop (Some (JObj [(''status'', JStr ''unknown'')])) ''status''
             \<noteq> Inr (Some (JStr ''bad''))"
    by simp
  show ?thesis
    using other_status_cycle [OF example_start a z s, of example_closure "initial_world ''key''"] a
    by (simp add: example_start initial_world_def)
qed

end
